theory Spec2Isabelle
  imports Complex_Main
begin

section \<open>Numbers, exceptions and configuration\<close>

text \<open>
  The program is a Python script (\<^verbatim>\<open>sticker_maker.py\<close>). Python's unbounded integers are
  modelled by \<open>int\<close>. Python's floats are modelled by \<open>real\<close>: every float operation
  is taken to be exact, so rounding to 53 bits, infinities and NaN are outside this model.
  An exception that leaves a function is the \<open>Inl\<close> branch of its result.
\<close>

datatype exn =
    ZeroDivisionError
  | KeyError
  | ValueError
  | CalledProcessError
  | JSONDecodeError
  | NoVideoStream
  | SystemExit int

text \<open>Module constants (lines 8 to 10 of the script).\<close>

definition MAX_SIZE_KB :: int where
  "MAX_SIZE_KB = 256"

definition TARGET_DIMENSION :: int where
  "TARGET_DIMENSION = 512"

definition SAFE_BITRATE_FACTOR :: real where
  "SAFE_BITRATE_FACTOR = 0.75"

text \<open>Python's \<^verbatim>\<open>int(x)\<close> on a float truncates towards zero.\<close>

definition py_int :: "real \<Rightarrow> int" where
  "py_int x = (if 0 \<le> x then \<lfloor>x\<rfloor> else \<lceil>x\<rceil>)"

text \<open>Python's true division \<^verbatim>\<open>a / b\<close> raises on a zero divisor.\<close>

definition py_truediv :: "real \<Rightarrow> real \<Rightarrow> exn + real" where
  "py_truediv a b = (if b = 0 then Inl ZeroDivisionError else Inr (a / b))"

section \<open>The target calculator\<close>

text \<open>
  \<^verbatim>\<open>calculate_target_details(duration, width, height, current_bitrate_factor=None)\<close>,
  lines 57 to 86. The statements are kept in the source's order: the dimensions are
  computed (and may raise) before the bitrate is.
\<close>

definition calculate_target_details ::
    "real \<Rightarrow> int \<Rightarrow> int \<Rightarrow> real option \<Rightarrow> exn + (int \<times> int \<times> int)" where
  "calculate_target_details duration width height factor_arg =
    (let current_bitrate_factor =
           (case factor_arg of None \<Rightarrow> SAFE_BITRATE_FACTOR | Some f \<Rightarrow> f)
     in
     case (if width > height
           then (case py_truediv (of_int TARGET_DIMENSION) (of_int width) of
                   Inl e \<Rightarrow> Inl e
                 | Inr q \<Rightarrow> Inr (TARGET_DIMENSION, py_int (q * of_int height)))
           else (case py_truediv (of_int TARGET_DIMENSION) (of_int height) of
                   Inl e \<Rightarrow> Inl e
                 | Inr q \<Rightarrow> Inr (py_int (q * of_int width), TARGET_DIMENSION)))
     of
       Inl e \<Rightarrow> Inl e
     | Inr (w0, h0) \<Rightarrow>
         (let new_width = (if w0 mod 2 \<noteq> 0 then w0 - 1 else w0);
              new_height = (if h0 mod 2 \<noteq> 0 then h0 - 1 else h0);
              target_total_bits = MAX_SIZE_KB * 1024 * 8;
              safe_bits = of_int target_total_bits * current_bitrate_factor
          in
          case py_truediv safe_bits duration of
            Inl e \<Rightarrow> Inl e
          | Inr bitrate_bps \<Rightarrow>
              (let k0 = py_int (bitrate_bps / 1000);
                   bitrate_kbps = (if k0 < 10 then 10 else k0)
               in Inr (new_width, new_height, bitrate_kbps))))"

section \<open>The fit loop\<close>

text \<open>
  What the script prints, one constructor per \<^verbatim>\<open>print\<close> site, carrying the values
  the message shows.
\<close>

datatype msg =
    Banner
  | ErrorFfmpegNotFound
  | ErrorFileNotFound
  | ErrorFfprobeNotFound
  | Analyzing
  | ErrorAnalyzing exn
  | Details real int int int int
  | EncodingAttempt nat nat int
  | Result real
  | Success
  | Overshot real
  | Warning int nat
  | Done

text \<open>
  One two-pass encode (lines 117 to 153): either pass may exit with a non-zero status,
  which \<^verbatim>\<open>check=True\<close> turns into an exception; otherwise the output file has a size
  in bytes.
\<close>

datatype encode_outcome = Pass1Failed | Pass2Failed | Produced nat

text \<open>The retry reduction of lines 162 and 163.\<close>

definition reduce_bitrate :: "int \<Rightarrow> int" where
  "reduce_bitrate current_bitrate =
    (let b = py_int (of_int current_bitrate * 0.80)
     in if b < 10 then 10 else b)"

text \<open>
  The loop \<^verbatim>\<open>for attempt in range(max_attempts)\<close> of lines 114 to 165, as a recursion
  over the remaining values of \<open>attempt\<close>. The encoder is given the attempt index and the
  bitrate. The result is what was printed, and either the exception that left the loop or
  the bitrate held when the loop ended.
\<close>

fun fit_loop ::
    "(nat \<Rightarrow> int \<Rightarrow> encode_outcome) \<Rightarrow> nat \<Rightarrow> nat list \<Rightarrow> int \<Rightarrow> msg list \<times> (exn + int)" where
  "fit_loop enc max_attempts [] current_bitrate = ([], Inr current_bitrate)"
| "fit_loop enc max_attempts (attempt # rest) current_bitrate =
    (let header = EncodingAttempt (attempt + 1) max_attempts current_bitrate in
     case enc attempt current_bitrate of
       Pass1Failed \<Rightarrow> ([header], Inl CalledProcessError)
     | Pass2Failed \<Rightarrow> ([header], Inl CalledProcessError)
     | Produced bytes \<Rightarrow>
         (let final_size = real bytes / 1024 in
          if final_size \<le> of_int MAX_SIZE_KB
          then ([header, Result final_size, Success], Inr current_bitrate)
          else if int attempt < int max_attempts - 1
          then (let (out, r) = fit_loop enc max_attempts rest (reduce_bitrate current_bitrate)
                in (header # Result final_size
                      # Overshot (final_size - of_int MAX_SIZE_KB) # out, r))
          else (let (out, r) = fit_loop enc max_attempts rest current_bitrate
                in (header # Result final_size # Warning MAX_SIZE_KB max_attempts # out, r))))"

section \<open>The media prober\<close>

text \<open>
  What running the prober and parsing its output gives. A value read from the JSON is
  \<open>Absent\<close> when its key is missing, \<open>Malformed\<close> when the conversion applied to it
  (\<^verbatim>\<open>float\<close> or \<^verbatim>\<open>int\<close>) rejects it, and \<open>Present\<close> with the converted value
  otherwise.
\<close>

datatype 'a field = Absent | Malformed | Present 'a

record stream =
  st_codec_type :: "string option"
  st_width :: "int field"
  st_height :: "int field"

record probe_json =
  js_format :: "real field option"
  js_streams :: "stream list option"

datatype probe_result = ProbeFailed | ProbeUnparsable | ProbeJson probe_json

text \<open>
  \<^verbatim>\<open>next((s for s in data['streams'] if s['codec_type'] == 'video'), None)\<close>: the
  streams are inspected in order, and one without the key raises.
\<close>

fun first_video :: "stream list \<Rightarrow> exn + stream option" where
  "first_video [] = Inr None"
| "first_video (s # ss) =
    (case st_codec_type s of
       None \<Rightarrow> Inl KeyError
     | Some c \<Rightarrow> if c = ''video'' then Inr (Some s) else first_video ss)"

text \<open>The body of the \<^verbatim>\<open>try\<close> block, lines 38 to 52.\<close>

definition probe_try :: "probe_result \<Rightarrow> exn + (real \<times> int \<times> int)" where
  "probe_try p =
    (case p of
       ProbeFailed \<Rightarrow> Inl CalledProcessError
     | ProbeUnparsable \<Rightarrow> Inl JSONDecodeError
     | ProbeJson data \<Rightarrow>
        (case js_format data of
           None \<Rightarrow> Inl KeyError
         | Some Malformed \<Rightarrow> Inl ValueError
         | Some dur \<Rightarrow>
            (let duration = (case dur of Present d \<Rightarrow> d | _ \<Rightarrow> 0) in
             case js_streams data of
               None \<Rightarrow> Inl KeyError
             | Some ss \<Rightarrow>
                (case first_video ss of
                   Inl e \<Rightarrow> Inl e
                 | Inr None \<Rightarrow> Inl NoVideoStream
                 | Inr (Some video_stream) \<Rightarrow>
                    (case st_width video_stream of
                       Absent \<Rightarrow> Inl KeyError
                     | Malformed \<Rightarrow> Inl ValueError
                     | Present width \<Rightarrow>
                        (case st_height video_stream of
                           Absent \<Rightarrow> Inl KeyError
                         | Malformed \<Rightarrow> Inl ValueError
                         | Present height \<Rightarrow> Inr (duration, width, height)))))))"

text \<open>
  \<^verbatim>\<open>get_video_info\<close>, lines 26 to 55: any exception of the body is caught, reported
  and turned into \<^verbatim>\<open>sys.exit(1)\<close>.
\<close>

definition get_video_info :: "probe_result \<Rightarrow> msg list \<times> (exn + (real \<times> int \<times> int))" where
  "get_video_info p =
    (case probe_try p of
       Inl e \<Rightarrow> ([ErrorAnalyzing e], Inl (SystemExit 1))
     | Inr r \<Rightarrow> ([], Inr r))"

section \<open>The process\<close>

text \<open>
  The host the script runs on: the search path, the directory tree below the script, the
  command line, the line typed at the prompt, the file system, and the two external tools.
\<close>

record host =
  which :: "string \<Rightarrow> string option"
  walk :: "(string \<times> string list \<times> string list) list"
  argv :: "string list"
  stdin_line :: string
  path_exists :: "string \<Rightarrow> bool"
  run_ffprobe :: "string \<Rightarrow> string \<Rightarrow> probe_result"
  run_ffmpeg :: "string \<Rightarrow> string \<Rightarrow> int \<Rightarrow> int \<Rightarrow> nat \<Rightarrow> int \<Rightarrow> encode_outcome"

definition os_path_join :: "string \<Rightarrow> string \<Rightarrow> string" where
  "os_path_join a b = a @ ''/'' @ b"

text \<open>\<^verbatim>\<open>find_tool\<close>, lines 12 to 24.\<close>

definition find_tool :: "host \<Rightarrow> string \<Rightarrow> string option" where
  "find_tool h tool_name =
    (case which h tool_name of
       Some p \<Rightarrow> Some p
     | None \<Rightarrow>
        (case find (\<lambda>(base, dirs, files). (tool_name @ ''.exe'') \<in> set files) (walk h) of
           Some (base, dirs, files) \<Rightarrow> Some (os_path_join base (tool_name @ ''.exe''))
         | None \<Rightarrow> None))"

text \<open>\<^verbatim>\<open>range(max_attempts)\<close> with the local \<^verbatim>\<open>max_attempts = 3\<close> of line 111.\<close>

definition max_attempts :: nat where
  "max_attempts = 3"

text \<open>
  \<^verbatim>\<open>compress_video\<close>, lines 88 to 167. A function that ends without raising returns
  \<^verbatim>\<open>None\<close>, here \<open>Inr ()\<close>.
\<close>

definition compress_video :: "host \<Rightarrow> string \<Rightarrow> string \<Rightarrow> msg list \<times> (exn + unit)" where
  "compress_video h ffmpeg_path input_path =
    (case find_tool h ''ffprobe'' of
       None \<Rightarrow> ([ErrorFfprobeNotFound], Inr ())
     | Some ffprobe_path \<Rightarrow>
        (case get_video_info (run_ffprobe h ffprobe_path input_path) of
           (out1, Inl e) \<Rightarrow> (Analyzing # out1, Inl e)
         | (out1, Inr (duration, width, height)) \<Rightarrow>
            (case calculate_target_details duration width height None of
               Inl e \<Rightarrow> (Analyzing # out1, Inl e)
             | Inr (new_w, new_h, bitrate_k) \<Rightarrow>
                (let head = Analyzing # out1 @ [Details duration width height new_w new_h] in
                 case fit_loop (run_ffmpeg h ffmpeg_path input_path new_w new_h)
                        max_attempts [0..<max_attempts] bitrate_k of
                   (out2, Inl e) \<Rightarrow> (head @ out2, Inl e)
                 | (out2, Inr b) \<Rightarrow> (head @ out2 @ [Done], Inr ())))))"

text \<open>
  \<^verbatim>\<open>str.strip\<close>: the characters of the given set are removed from both ends. Without
  an argument the set is the white space, here its ASCII part.
\<close>

definition py_strip :: "char set \<Rightarrow> string \<Rightarrow> string" where
  "py_strip cs s = rev (dropWhile (\<lambda>c. c \<in> cs) (rev (dropWhile (\<lambda>c. c \<in> cs) s)))"

definition whitespace :: "char set" where
  "whitespace = {CHR 0x09, CHR 0x0A, CHR 0x0B, CHR 0x0C, CHR 0x0D,
                 CHR 0x1C, CHR 0x1D, CHR 0x1E, CHR 0x1F, CHR 0x20}"

text \<open>\<^verbatim>\<open>main\<close>, lines 169 to 191.\<close>

definition main :: "host \<Rightarrow> msg list \<times> (exn + unit)" where
  "main h =
    (case find_tool h ''ffmpeg'' of
       None \<Rightarrow> ([Banner, ErrorFfmpegNotFound], Inl (SystemExit 1))
     | Some ffmpeg_path \<Rightarrow>
        (let input_file =
               (if length (argv h) > 1 then argv h ! 1
                else py_strip {CHR 0x22} (py_strip whitespace (stdin_line h)))
         in
         if \<not> path_exists h input_file
         then ([Banner, ErrorFileNotFound], Inr ())
         else (let (out, r) = compress_video h ffmpeg_path input_file in (Banner # out, r))))"

text \<open>
  The exit status of the interpreter: 0 when \<^verbatim>\<open>main\<close> returns, the argument of
  \<^verbatim>\<open>sys.exit\<close>, and 1 after an exception nobody caught.
\<close>

definition exit_status :: "exn + unit \<Rightarrow> int" where
  "exit_status r = (case r of Inr u \<Rightarrow> 0 | Inl (SystemExit n) \<Rightarrow> n | Inl e \<Rightarrow> 1)"

section \<open>Observations on the printed output\<close>

text \<open>The bitrates of the encode attempts, in order, and the measured sizes reported.\<close>

fun attempt_bitrates :: "msg list \<Rightarrow> int list" where
  "attempt_bitrates [] = []"
| "attempt_bitrates (EncodingAttempt n m b # out) = b # attempt_bitrates out"
| "attempt_bitrates (x # out) = attempt_bitrates out"

fun attempt_results :: "msg list \<Rightarrow> real list" where
  "attempt_results [] = []"
| "attempt_results (Result s # out) = s # attempt_results out"
| "attempt_results (x # out) = attempt_results out"

section \<open>Scripted collaborators\<close>

text \<open>
  Inputs for the concrete runs below. The encoder double returns the sizes of a script,
  one per attempt, whatever the bitrate; past the end of the script its first pass fails.
\<close>

definition scripted_encoder :: "nat list \<Rightarrow> nat \<Rightarrow> int \<Rightarrow> encode_outcome" where
  "scripted_encoder sizes attempt bitrate =
    (if attempt < length sizes then Produced (sizes ! attempt) else Pass1Failed)"

definition video_1080p :: stream where
  "video_1080p = \<lparr>st_codec_type = Some ''video'', st_width = Present 1920, st_height = Present 1080\<rparr>"

definition audio_track :: stream where
  "audio_track = \<lparr>st_codec_type = Some ''audio'', st_width = Absent, st_height = Absent\<rparr>"

text \<open>
  A host with both tools on the search path and a five second 1920 by 1080 clip named on
  the command line, whose every encode comes out at 300000 bytes.
\<close>

definition studio_host :: host where
  "studio_host =
    \<lparr>which = (\<lambda>tool. Some (''/usr/bin/'' @ tool)),
     walk = [],
     argv = [''sticker_maker.py'', ''clip.mp4''],
     stdin_line = [],
     path_exists = (\<lambda>p. p = ''clip.mp4''),
     run_ffprobe = (\<lambda>tool file.
        ProbeJson \<lparr>js_format = Some (Present 5), js_streams = Some [audio_track, video_1080p]\<rparr>),
     run_ffmpeg = (\<lambda>tool file w h. scripted_encoder [300000, 300000, 300000])\<rparr>"

definition host_without_input :: host where
  "host_without_input = studio_host\<lparr>path_exists := (\<lambda>p. False)\<rparr>"

definition host_without_ffprobe :: host where
  "host_without_ffprobe =
    studio_host\<lparr>which := (\<lambda>tool. if tool = ''ffmpeg'' then Some ''/usr/bin/ffmpeg'' else None)\<rparr>"

definition host_audio_only :: host where
  "host_audio_only =
    studio_host\<lparr>run_ffprobe := (\<lambda>tool file.
      ProbeJson \<lparr>js_format = Some (Present 5), js_streams = Some [audio_track]\<rparr>)\<rparr>"

definition host_without_duration :: host where
  "host_without_duration =
    studio_host\<lparr>run_ffprobe := (\<lambda>tool file.
      ProbeJson \<lparr>js_format = Some Absent, js_streams = Some [video_1080p]\<rparr>)\<rparr>"

definition host_negative_duration :: host where
  "host_negative_duration =
    studio_host\<lparr>run_ffprobe := (\<lambda>tool file.
      ProbeJson \<lparr>js_format = Some (Present (- 2)), js_streams = Some [video_1080p]\<rparr>)\<rparr>"

section \<open>Properties of the target calculator\<close>

subsection \<open>Auxiliary facts\<close>

lemma py_int_nonneg: "0 \<le> x \<Longrightarrow> py_int x = \<lfloor>x\<rfloor>"
  by (simp add: py_int_def)

lemma py_int_scale:
  assumes "0 \<le> a" "0 < b"
  shows "py_int (512 / real_of_int b * real_of_int a) = 512 * a div b"
proof -
  have "512 / real_of_int b * real_of_int a = real_of_int (512 * a) / real_of_int b"
    by simp
  moreover have "0 \<le> real_of_int (512 * a) / real_of_int b"
    using assms by simp
  ultimately show ?thesis
    by (simp only: py_int_nonneg floor_divide_of_int_eq)
qed

lemma py_int_clamp: "(let k0 = py_int x in if k0 < 10 then 10 else k0) = max 10 \<lfloor>x\<rfloor>"
  by (auto simp: py_int_def Let_def max_def)

lemma even_down: "(if n mod 2 \<noteq> 0 then n - 1 else n) = 2 * (n div (2::int))"
  by presburger

lemma calc_wide:
  assumes "0 < h" "h < w" "d \<noteq> 0"
  shows "calculate_target_details d w h f =
         Inr (512, 2 * ((512 * h div w) div 2),
              max 10 \<lfloor>2097152 * (case f of None \<Rightarrow> 0.75 | Some x \<Rightarrow> x) / d / 1000\<rfloor>)"
proof -
  have dims: "py_truediv (of_int TARGET_DIMENSION) (of_int w) = Inr (512 / real_of_int w)"
    using assms by (simp add: py_truediv_def TARGET_DIMENSION_def)
  have sh: "py_int (512 / real_of_int w * real_of_int h) = 512 * h div w"
    using assms by (intro py_int_scale) simp_all
  have bits: "py_truediv (real_of_int (MAX_SIZE_KB * 1024 * 8) * x) d = Inr (2097152 * x / d)" for x
    using assms by (simp add: py_truediv_def MAX_SIZE_KB_def)
  show ?thesis
    unfolding calculate_target_details_def Let_def dims sum.case prod.case sh even_down bits
      py_int_clamp[unfolded Let_def]
    using assms by (simp add: TARGET_DIMENSION_def SAFE_BITRATE_FACTOR_def split: option.split)
qed

lemma calc_tall:
  assumes "0 < w" "w \<le> h" "d \<noteq> 0"
  shows "calculate_target_details d w h f =
         Inr (2 * ((512 * w div h) div 2), 512,
              max 10 \<lfloor>2097152 * (case f of None \<Rightarrow> 0.75 | Some x \<Rightarrow> x) / d / 1000\<rfloor>)"
proof -
  have dims: "py_truediv (of_int TARGET_DIMENSION) (of_int h) = Inr (512 / real_of_int h)"
    using assms by (simp add: py_truediv_def TARGET_DIMENSION_def)
  have sh: "py_int (512 / real_of_int h * real_of_int w) = 512 * w div h"
    using assms by (intro py_int_scale) simp_all
  have bits: "py_truediv (real_of_int (MAX_SIZE_KB * 1024 * 8) * x) d = Inr (2097152 * x / d)" for x
    using assms by (simp add: py_truediv_def MAX_SIZE_KB_def)
  show ?thesis
    unfolding calculate_target_details_def Let_def dims sum.case prod.case sh even_down bits
      py_int_clamp[unfolded Let_def]
    using assms by (simp add: TARGET_DIMENSION_def SAFE_BITRATE_FACTOR_def split: option.split)
qed


lemma calc_bitrate:
  assumes "d \<noteq> 0" "0 < w" "0 < h"
  shows "\<exists>nw nh. calculate_target_details d w h f =
           Inr (nw, nh, max 10 \<lfloor>2097152 * (case f of None \<Rightarrow> 0.75 | Some x \<Rightarrow> x) / d / 1000\<rfloor>)"
proof (cases "h < w")
  case True
  then show ?thesis using calc_wide[of h w d f] assms by blast
next
  case False
  then show ?thesis using calc_tall[of w h d f] assms by force
qed



lemma kbps_antimono:
  assumes "0 < d1" "d1 \<le> d2"
  shows "max 10 \<lfloor>2097152 * (c::real) / d2 / 1000\<rfloor> \<le> max (10::int) \<lfloor>2097152 * c / d1 / 1000\<rfloor>"
proof (cases "0 \<le> c")
  case True
  then have "2097152 * c / d2 \<le> 2097152 * c / d1"
    using assms by (intro divide_left_mono) simp_all
  then have "2097152 * c / d2 / 1000 \<le> 2097152 * c / d1 / 1000"
    by (intro divide_right_mono) simp_all
  then have "\<lfloor>2097152 * c / d2 / 1000\<rfloor> \<le> \<lfloor>2097152 * c / d1 / 1000\<rfloor>"
    by (rule floor_mono)
  then show ?thesis by simp
next
  case False
  with assms have "2097152 * c / d2 / 1000 < 0"
    by (simp add: divide_neg_pos)
  then have "\<lfloor>2097152 * c / d2 / 1000\<rfloor> < 0" by linarith
  then show ?thesis by simp
qed

subsection \<open>The bitrate formula\<close>



subsection \<open>Longer clips get no higher a bitrate\<close>

text \<open>
  Claim C9. For a fixed size budget and safety factor and the same width and height, the
  bitrate is monotonically non-increasing in the positive duration: from
  \<open>0 < d1 \<le> d2\<close> follows that the bitrate for \<open>d2\<close> is at most the one for
  \<open>d1\<close>.
\<close>

theorem bitrate_monotone:
  assumes "0 < d1" "d1 \<le> d2" "0 < w" "0 < h"
  shows "\<exists>nw nh b1 b2.
           calculate_target_details d1 w h f = Inr (nw, nh, b1)
         \<and> calculate_target_details d2 w h f = Inr (nw, nh, b2)
         \<and> b2 \<le> b1"
proof (cases "h < w")
  case True
  with assms show ?thesis
    using calc_wide[of h w d1 f] calc_wide[of h w d2 f] kbps_antimono[of d1 d2]
    by simp
next
  case False
  with assms show ?thesis
    using calc_tall[of w h d1 f] calc_tall[of w h d2 f] kbps_antimono[of d1 d2]
    by simp
qed

theorem bitrate_monotone_witness:
  "\<exists>nw nh b1 b2.
           calculate_target_details 2 1920 1080 None = Inr (nw, nh, b1)
         \<and> calculate_target_details 5 1920 1080 None = Inr (nw, nh, b2)
         \<and> b2 \<le> b1"
  using bitrate_monotone[of 2 5 1920 1080 None] by simp

subsection \<open>The duration precondition\<close>




subsection \<open>The output dimensions\<close>







section \<open>Properties of the fit loop\<close>

subsection \<open>Auxiliary facts\<close>

lemma upt_attempts: "[0..<max_attempts] = [0, 1, 2]"
  by (simp add: max_attempts_def upt_rec)

lemma reduce_bitrate_eq: "reduce_bitrate b = max 10 \<lfloor>real_of_int b * 0.80\<rfloor>"
  unfolding reduce_bitrate_def by (rule py_int_clamp)

lemma reduce_bitrate_div: "reduce_bitrate b = max 10 (4 * b div 5)"
proof -
  have "real_of_int b * 0.80 = real_of_int (4 * b) / real_of_int 5"
    by simp
  then have "\<lfloor>real_of_int b * 0.80\<rfloor> = 4 * b div 5"
    by (simp only: floor_divide_of_int_eq)
  then show ?thesis by (simp add: reduce_bitrate_eq)
qed

lemma reduce_bitrate_ge: "10 \<le> reduce_bitrate b"
  by (simp add: reduce_bitrate_div)

lemma reduce_bitrate_le: "10 \<le> b \<Longrightarrow> reduce_bitrate b \<le> b"
  unfolding reduce_bitrate_div by simp

lemma reduce_bitrate_less: "10 < b \<Longrightarrow> reduce_bitrate b < b"
  unfolding reduce_bitrate_div by simp

lemma reduce_bitrate_floor: "reduce_bitrate 10 = 10"
  unfolding reduce_bitrate_div by simp

lemma reduce_iter_ge: "10 \<le> b \<Longrightarrow> 10 \<le> (reduce_bitrate ^^ n) b"
  by (induction n) (simp_all add: reduce_bitrate_ge)

lemma fit_loop_bitrates_ge:
  "10 \<le> b \<Longrightarrow> \<forall>t \<in> set (attempt_bitrates (fst (fit_loop enc m as b))). 10 \<le> t"
proof (induction as arbitrary: b)
  case Nil
  then show ?case by simp
next
  case (Cons a as)
  have r: "10 \<le> reduce_bitrate b" by (rule reduce_bitrate_ge)
  from Cons.IH[OF r] Cons.IH[OF Cons.prems] Cons.prems
  show ?case
    by (auto simp: Let_def split: encode_outcome.splits prod.splits)
qed

lemma fit_loop_final_ge:
  "10 \<le> b \<Longrightarrow> snd (fit_loop enc m as b) = Inr r \<Longrightarrow> 10 \<le> r"
proof (induction as arbitrary: b)
  case Nil
  then show ?case by simp
next
  case (Cons a as)
  have r: "10 \<le> reduce_bitrate b" by (rule reduce_bitrate_ge)
  from Cons.IH[OF r] Cons.IH[OF Cons.prems(1)] Cons.prems
  show ?case
    by (auto simp: Let_def split: encode_outcome.splits prod.splits if_splits)
qed

lemma fit_loop_shape:
  "attempt_bitrates (fst (fit_loop enc max_attempts [0..<max_attempts] B))
     \<in> {[B], [B, reduce_bitrate B], [B, reduce_bitrate B, reduce_bitrate (reduce_bitrate B)]}"
  unfolding upt_attempts
  by (simp add: max_attempts_def Let_def split: encode_outcome.split prod.split)




subsection \<open>The reduction law\<close>




subsection \<open>The number of iterations\<close>

text \<open>
  Claim C2. For every sequence of measured output sizes the loop makes at least one and at
  most \<open>max_attempts\<close> encode iterations and reports exactly one result per iteration,
  the measured size of that iteration. It stops at the first iteration whose size is
  within \<open>MAX_SIZE_KB\<close>, with the bitrate of that iteration still held; when no size
  fits it stops after \<open>max_attempts\<close> iterations, again with the last bitrate unchanged.
\<close>

theorem fit_loop_iterations:
  fixes sizes :: "nat \<Rightarrow> nat" and B :: int
  defines "run \<equiv> fit_loop (\<lambda>attempt bitrate. Produced (sizes attempt)) max_attempts [0..<max_attempts] B"
  shows "1 \<le> length (attempt_bitrates (fst run))
       \<and> length (attempt_bitrates (fst run)) \<le> max_attempts
       \<and> attempt_results (fst run)
            = map (\<lambda>i. real (sizes i) / 1024) [0..<length (attempt_bitrates (fst run))]
       \<and> (\<forall>i<max_attempts.
             real (sizes i) / 1024 \<le> real_of_int MAX_SIZE_KB
             \<and> (\<forall>j<i. \<not> real (sizes j) / 1024 \<le> real_of_int MAX_SIZE_KB)
             \<longrightarrow> length (attempt_bitrates (fst run)) = i + 1
               \<and> snd run = Inr (attempt_bitrates (fst run) ! i)
               \<and> last (fst run) = Success)
       \<and> ((\<forall>i<max_attempts. \<not> real (sizes i) / 1024 \<le> real_of_int MAX_SIZE_KB)
             \<longrightarrow> length (attempt_bitrates (fst run)) = max_attempts
               \<and> snd run = Inr (last (attempt_bitrates (fst run))))"
  unfolding run_def upt_attempts
  apply (cases "real (sizes 0) / 1024 \<le> real_of_int MAX_SIZE_KB";
         cases "real (sizes 1) / 1024 \<le> real_of_int MAX_SIZE_KB";
         cases "real (sizes 2) / 1024 \<le> real_of_int MAX_SIZE_KB")
  apply (simp_all add: max_attempts_def Let_def numeral_3_eq_3 numeral_2_eq_2
      All_less_Suc Ex_less_Suc upt_rec)
  done

theorem fit_loop_iterations_witness:
  "length (attempt_bitrates (fst (fit_loop
      (\<lambda>attempt bitrate. Produced ([300000, 200000, 100000] ! attempt))
      max_attempts [0..<max_attempts] 314))) = 2"
proof -
  have fits: "real ([300000, 200000, 100000] ! 1) / 1024 \<le> real_of_int MAX_SIZE_KB
      \<and> (\<forall>j<1. \<not> real ([300000, 200000, 100000] ! j) / 1024 \<le> real_of_int MAX_SIZE_KB)"
    by (simp add: MAX_SIZE_KB_def)
  have "(1::nat) < max_attempts" by (simp add: max_attempts_def)
  with fits fit_loop_iterations[of "\<lambda>i. [300000, 200000, 100000] ! i" 314]
  have "length (attempt_bitrates (fst (fit_loop
      (\<lambda>attempt bitrate. Produced ([300000, 200000, 100000] ! attempt))
      max_attempts [0..<max_attempts] 314))) = 1 + 1"
    by blast
  then show ?thesis by simp
qed

subsection \<open>The bitrate floor\<close>

text \<open>
  Claim C3. For every positive duration (and positive width and height) the bitrate that
  \<open>calculate_target_details\<close> returns is at least 10, it stays at least 10 under any
  number of reductions, and every bitrate the loop encodes with or ends with is at least
  10.
\<close>

theorem bitrate_never_below_floor:
  assumes "0 < d" "0 < w" "0 < h"
  shows "\<exists>nw nh b.
           calculate_target_details d w h f = Inr (nw, nh, b)
         \<and> 10 \<le> b
         \<and> (\<forall>n. 10 \<le> (reduce_bitrate ^^ n) b)
         \<and> (\<forall>enc. (\<forall>t \<in> set (attempt_bitrates
                          (fst (fit_loop enc max_attempts [0..<max_attempts] b))). 10 \<le> t)
                 \<and> (\<forall>r. snd (fit_loop enc max_attempts [0..<max_attempts] b) = Inr r
                        \<longrightarrow> 10 \<le> r))"
proof -
  from assms have "d \<noteq> 0" by simp
  from calc_bitrate[OF this assms(2,3), of f]
  obtain nw nh b where c: "calculate_target_details d w h f = Inr (nw, nh, b)"
    and b: "10 \<le> b"
    by (metis max.cobounded1)
  from b have "\<forall>n. 10 \<le> (reduce_bitrate ^^ n) b"
    by (simp add: reduce_iter_ge)
  moreover from b have "\<forall>t \<in> set (attempt_bitrates
        (fst (fit_loop enc max_attempts [0..<max_attempts] b))). 10 \<le> t" for enc
    by (rule fit_loop_bitrates_ge)
  moreover from b have "\<forall>r. snd (fit_loop enc max_attempts [0..<max_attempts] b) = Inr r
        \<longrightarrow> 10 \<le> r" for enc
    using fit_loop_final_ge by blast
  ultimately show ?thesis using c b by blast
qed

theorem bitrate_never_below_floor_witness:
  "\<exists>nw nh b.
     calculate_target_details 200 1920 1080 None = Inr (nw, nh, b)
   \<and> 10 \<le> b
   \<and> (\<forall>n. 10 \<le> (reduce_bitrate ^^ n) b)
   \<and> (\<forall>enc. (\<forall>t \<in> set (attempt_bitrates
                    (fst (fit_loop enc max_attempts [0..<max_attempts] b))). 10 \<le> t)
           \<and> (\<forall>r. snd (fit_loop enc max_attempts [0..<max_attempts] b) = Inr r
                  \<longrightarrow> 10 \<le> r))"
  by (rule bitrate_never_below_floor) simp_all

subsection \<open>Reductions and the floor\<close>

text \<open>
  Claim C6 as stated fails at the floor: a reduction from 10 gives 8, which is clamped
  back to 10, so the bitrate is not strictly smaller. A run that starts at 10 encodes
  three times at 10.
\<close>

theorem reduction_at_floor_keeps_bitrate:
  "attempt_bitrates (fst (fit_loop (scripted_encoder [300000, 300000, 300000])
      max_attempts [0..<max_attempts] 10)) = [10, 10, 10]
   \<and> \<not> reduce_bitrate 10 < 10"
  unfolding upt_attempts
  by (simp add: max_attempts_def scripted_encoder_def MAX_SIZE_KB_def reduce_bitrate_def py_int_def
      Let_def)

text \<open>
  Claim C6, amended. Starting from a bitrate of at least 10, every retry of the loop
  encodes with the reduction of the bitrate before it, which is never larger, and is
  strictly smaller exactly when the bitrate before it was above the floor of 10.
\<close>

theorem reduction_decreases_above_floor:
  assumes "10 \<le> B"
    and "Suc i < length (attempt_bitrates (fst (fit_loop enc max_attempts [0..<max_attempts] B)))"
  shows "attempt_bitrates (fst (fit_loop enc max_attempts [0..<max_attempts] B)) ! Suc i
           = reduce_bitrate (attempt_bitrates (fst (fit_loop enc max_attempts [0..<max_attempts] B)) ! i)
       \<and> attempt_bitrates (fst (fit_loop enc max_attempts [0..<max_attempts] B)) ! Suc i
           \<le> attempt_bitrates (fst (fit_loop enc max_attempts [0..<max_attempts] B)) ! i
       \<and> (attempt_bitrates (fst (fit_loop enc max_attempts [0..<max_attempts] B)) ! Suc i
           < attempt_bitrates (fst (fit_loop enc max_attempts [0..<max_attempts] B)) ! i
          \<longleftrightarrow> 10 < attempt_bitrates (fst (fit_loop enc max_attempts [0..<max_attempts] B)) ! i)"
proof -
  define ts where "ts = attempt_bitrates (fst (fit_loop enc max_attempts [0..<max_attempts] B))"
  have shape: "ts \<in> {[B], [B, reduce_bitrate B], [B, reduce_bitrate B, reduce_bitrate (reduce_bitrate B)]}"
    unfolding ts_def by (rule fit_loop_shape)
  have step: "ts ! Suc i = reduce_bitrate (ts ! i)" and ge: "10 \<le> ts ! i"
    using shape assms(2)[folded ts_def] assms(1) reduce_bitrate_ge[of B]
    by (auto simp: less_Suc_eq)
  have "reduce_bitrate (ts ! i) \<le> ts ! i"
    using ge by (rule reduce_bitrate_le)
  moreover have "reduce_bitrate (ts ! i) < ts ! i \<longleftrightarrow> 10 < ts ! i"
    using ge reduce_bitrate_less[of "ts ! i"] reduce_bitrate_floor
    by (cases "ts ! i = 10") auto
  ultimately show ?thesis
    unfolding ts_def[symmetric] step by simp
qed

theorem reduction_decreases_above_floor_witness:
  "attempt_bitrates (fst (fit_loop (scripted_encoder [300000, 300000, 300000])
      max_attempts [0..<max_attempts] 314)) ! Suc 0
   < attempt_bitrates (fst (fit_loop (scripted_encoder [300000, 300000, 300000])
      max_attempts [0..<max_attempts] 314)) ! 0"
proof -
  have ts: "attempt_bitrates (fst (fit_loop (scripted_encoder [300000, 300000, 300000])
      max_attempts [0..<max_attempts] 314)) = [314, 251, 200]"
    unfolding upt_attempts
    by (simp add: max_attempts_def scripted_encoder_def MAX_SIZE_KB_def reduce_bitrate_def
        py_int_def Let_def)
  have len: "Suc 0 < length (attempt_bitrates (fst (fit_loop
      (scripted_encoder [300000, 300000, 300000]) max_attempts [0..<max_attempts] 314)))"
    unfolding ts by simp
  have "(10::int) \<le> 314" by simp
  from reduction_decreases_above_floor[OF this len]
  have "attempt_bitrates (fst (fit_loop (scripted_encoder [300000, 300000, 300000])
      max_attempts [0..<max_attempts] 314)) ! Suc 0
   < attempt_bitrates (fst (fit_loop (scripted_encoder [300000, 300000, 300000])
      max_attempts [0..<max_attempts] 314)) ! 0
   \<longleftrightarrow> 10 < attempt_bitrates (fst (fit_loop (scripted_encoder [300000, 300000, 300000])
      max_attempts [0..<max_attempts] 314)) ! 0"
    by blast
  moreover have "10 < attempt_bitrates (fst (fit_loop (scripted_encoder [300000, 300000, 300000])
      max_attempts [0..<max_attempts] 314)) ! 0"
    unfolding ts by simp
  ultimately show ?thesis by blast
qed

section \<open>Properties of the process\<close>

subsection \<open>Auxiliary facts\<close>

lemma first_video_none:
  "\<forall>s \<in> set ss. st_codec_type s \<noteq> Some ''video'' \<Longrightarrow>
     first_video ss = Inr None \<or> first_video ss = Inl KeyError"
  by (induction ss) (auto split: option.splits)

lemma probe_try_no_video:
  assumes "js_streams data = Some ss" "\<forall>s \<in> set ss. st_codec_type s \<noteq> Some ''video''"
  shows "\<exists>e. probe_try (ProbeJson data) = Inl e"
  using first_video_none[OF assms(2)] assms(1)
  by (auto simp: probe_try_def split: option.splits field.splits)

lemma probe_try_no_dimension:
  assumes "js_streams data = Some ss" "first_video ss = Inr (Some v)"
    "st_width v = Absent \<or> st_height v = Absent"
  shows "\<exists>e. probe_try (ProbeJson data) = Inl e"
  using assms
  by (auto simp: probe_try_def split: option.splits field.splits)

lemma probe_try_unchecked:
  assumes "js_streams data = Some ss" "first_video ss = Inr (Some v)"
    "st_width v = Present w" "st_height v = Present h"
  shows "js_format data = Some Absent \<Longrightarrow> probe_try (ProbeJson data) = Inr (0, w, h)"
    and "js_format data = Some (Present d) \<Longrightarrow> probe_try (ProbeJson data) = Inr (d, w, h)"
  using assms by (simp_all add: probe_try_def)

lemma main_ready:
  assumes "find_tool h ''ffmpeg'' = Some fm" "1 < length (argv h)" "path_exists h (argv h ! 1)"
  shows "main h = (Banner # fst (compress_video h fm (argv h ! 1)),
                   snd (compress_video h fm (argv h ! 1)))"
  using assms by (simp add: main_def split: prod.split)

lemma compress_video_probe_failure:
  assumes "find_tool h ''ffprobe'' = Some fp" "probe_try (run_ffprobe h fp inp) = Inl e"
  shows "compress_video h fm inp = ([Analyzing, ErrorAnalyzing e], Inl (SystemExit 1))"
  using assms by (simp add: compress_video_def get_video_info_def)

lemma ready_studio:
  "find_tool host_audio_only ''ffmpeg'' = Some ''/usr/bin/ffmpeg''"
  "find_tool host_audio_only ''ffprobe'' = Some ''/usr/bin/ffprobe''"
  "1 < length (argv host_audio_only)"
  "path_exists host_audio_only (argv host_audio_only ! 1)"
  by (simp_all add: host_audio_only_def studio_host_def find_tool_def)


subsection \<open>Failures of the prober\<close>

text \<open>
  Claim C7 as stated fails: with the duration missing from the probed data the prober
  does not fail. \<^verbatim>\<open>data['format'].get('duration', 0)\<close> reads it as 0, and the prober
  returns.
\<close>

theorem missing_duration_accepted:
  "get_video_info (ProbeJson \<lparr>js_format = Some Absent, js_streams = Some [video_1080p]\<rparr>)
     = ([], Inr (0, 1920, 1080))"
  by (simp add: get_video_info_def probe_try_def video_1080p_def)

text \<open>
  Claim C7, amended. On a host where both tools and the input file are found, the prober
  fails, and the process stops with the diagnostic and exit status 1 before any encode
  attempt, whenever the probed data has no video stream or its first video stream has no
  width or no height. The prober does not check values: a missing duration is returned as
  0, and a duration or dimension that is present is returned as it is, whatever its sign.
\<close>

theorem prober_failure_aborts:
  assumes tools: "find_tool h ''ffmpeg'' = Some fm" "find_tool h ''ffprobe'' = Some fp"
    and input: "1 < length (argv h)" "path_exists h (argv h ! 1)"
    and probe: "run_ffprobe h fp (argv h ! 1) = ProbeJson data" "js_streams data = Some ss"
  shows "((\<forall>s \<in> set ss. st_codec_type s \<noteq> Some ''video'')
          \<or> (\<exists>v. first_video ss = Inr (Some v) \<and> (st_width v = Absent \<or> st_height v = Absent))
         \<longrightarrow> (\<exists>e. get_video_info (ProbeJson data) = ([ErrorAnalyzing e], Inl (SystemExit 1))
                \<and> main h = ([Banner, Analyzing, ErrorAnalyzing e], Inl (SystemExit 1))
                \<and> exit_status (snd (main h)) = 1
                \<and> attempt_bitrates (fst (main h)) = []))
       \<and> (\<forall>v w' h'. first_video ss = Inr (Some v) \<and> st_width v = Present w' \<and> st_height v = Present h'
            \<longrightarrow> (js_format data = Some Absent
                    \<longrightarrow> get_video_info (ProbeJson data) = ([], Inr (0, w', h')))
              \<and> (\<forall>d. js_format data = Some (Present d)
                    \<longrightarrow> get_video_info (ProbeJson data) = ([], Inr (d, w', h'))))"
proof (intro conjI impI allI)
  assume bad: "(\<forall>s \<in> set ss. st_codec_type s \<noteq> Some ''video'')
          \<or> (\<exists>v. first_video ss = Inr (Some v) \<and> (st_width v = Absent \<or> st_height v = Absent))"
  then obtain e where e: "probe_try (ProbeJson data) = Inl e"
    using probe_try_no_video[OF probe(2)] probe_try_no_dimension[OF probe(2)] by blast
  then have g: "get_video_info (ProbeJson data) = ([ErrorAnalyzing e], Inl (SystemExit 1))"
    by (simp add: get_video_info_def)
  have "probe_try (run_ffprobe h fp (argv h ! 1)) = Inl e"
    unfolding probe(1) by (rule e)
  then have c: "compress_video h fm (argv h ! 1) = ([Analyzing, ErrorAnalyzing e], Inl (SystemExit 1))"
    by (rule compress_video_probe_failure[OF tools(2)])
  have m: "main h = ([Banner, Analyzing, ErrorAnalyzing e], Inl (SystemExit 1))"
    using main_ready[OF tools(1) input] c by simp
  show "\<exists>e. get_video_info (ProbeJson data) = ([ErrorAnalyzing e], Inl (SystemExit 1))
                \<and> main h = ([Banner, Analyzing, ErrorAnalyzing e], Inl (SystemExit 1))
                \<and> exit_status (snd (main h)) = 1
                \<and> attempt_bitrates (fst (main h)) = []"
    using g m by (auto simp: exit_status_def)
next
  fix v w' h'
  assume "first_video ss = Inr (Some v) \<and> st_width v = Present w' \<and> st_height v = Present h'"
    and "js_format data = Some Absent"
  then show "get_video_info (ProbeJson data) = ([], Inr (0, w', h'))"
    using probe_try_unchecked(1)[OF probe(2), of v w' h'] by (simp add: get_video_info_def)
next
  fix v w' h' d
  assume "first_video ss = Inr (Some v) \<and> st_width v = Present w' \<and> st_height v = Present h'"
    and "js_format data = Some (Present d)"
  then show "get_video_info (ProbeJson data) = ([], Inr (d, w', h'))"
    using probe_try_unchecked(2)[OF probe(2), of v w' h' d] by (simp add: get_video_info_def)
qed

theorem prober_failure_aborts_witness:
  "\<exists>e. main host_audio_only = ([Banner, Analyzing, ErrorAnalyzing e], Inl (SystemExit 1))
       \<and> exit_status (snd (main host_audio_only)) = 1"
proof -
  have p: "run_ffprobe host_audio_only ''/usr/bin/ffprobe'' (argv host_audio_only ! 1)
        = ProbeJson \<lparr>js_format = Some (Present 5), js_streams = Some [audio_track]\<rparr>"
    by (simp add: host_audio_only_def studio_host_def)
  have s: "js_streams \<lparr>js_format = Some (Present 5), js_streams = Some [audio_track]\<rparr> = Some [audio_track]"
    by simp
  have b: "\<forall>s \<in> set [audio_track]. st_codec_type s \<noteq> Some ''video''"
    by (simp add: audio_track_def)
  from prober_failure_aborts[OF ready_studio p s] b
  show ?thesis by blast
qed

text \<open>
  What the unchecked values lead to: a run whose probed data has no duration ends with the
  uncaught \<open>ZeroDivisionError\<close> of the target calculator, and a run with a negative
  duration goes on to encode at the floor bitrate.
\<close>

lemma zero_duration_run:
  "main host_without_duration = ([Banner, Analyzing], Inl ZeroDivisionError)"
  by (simp add: main_def compress_video_def host_without_duration_def studio_host_def find_tool_def
      get_video_info_def probe_try_def video_1080p_def
      calculate_target_details_def py_truediv_def py_int_def TARGET_DIMENSION_def Let_def)

lemma negative_duration_run:
  "main host_negative_duration =
    ([Banner, Analyzing, Details (- 2) 1920 1080 512 288,
      EncodingAttempt 1 3 10, Result (9375 / 32), Overshot (1183 / 32),
      EncodingAttempt 2 3 10, Result (9375 / 32), Overshot (1183 / 32),
      EncodingAttempt 3 3 10, Result (9375 / 32), Warning 256 3, Done], Inr ())"
  by (simp add: main_def compress_video_def host_negative_duration_def studio_host_def find_tool_def
      get_video_info_def probe_try_def video_1080p_def upt_rec scripted_encoder_def
      calculate_target_details_def py_truediv_def py_int_def TARGET_DIMENSION_def MAX_SIZE_KB_def
      SAFE_BITRATE_FACTOR_def reduce_bitrate_def max_attempts_def Let_def)

subsection \<open>Exit status\<close>

text \<open>
  Claim C8. The claim wants a failure status whenever the input file does not exist or a
  tool cannot be located. The script prints the diagnostic in both of the following runs
  but leaves \<^verbatim>\<open>main\<close> with a plain \<^verbatim>\<open>return\<close>, so the exit status is 0: a run
  whose input file does not exist, and a run where \<^verbatim>\<open>ffprobe\<close> cannot be located.
\<close>

theorem error_exits_with_status_zero:
  "main host_without_input = ([Banner, ErrorFileNotFound], Inr ())
   \<and> exit_status (snd (main host_without_input)) = 0
   \<and> main host_without_ffprobe = ([Banner, ErrorFfprobeNotFound], Inr ())
   \<and> exit_status (snd (main host_without_ffprobe)) = 0"
  by (simp add: main_def compress_video_def host_without_input_def host_without_ffprobe_def
      studio_host_def find_tool_def exit_status_def)

text \<open>
  The other parts of the claim hold: without \<^verbatim>\<open>ffmpeg\<close> the script calls
  \<^verbatim>\<open>sys.exit(1)\<close>, and a run whose third attempt is still too large prints the warning
  and returns, so the exit status is 0.
\<close>

lemma missing_ffmpeg_exits_with_status_one:
  assumes "find_tool h ''ffmpeg'' = None"
  shows "main h = ([Banner, ErrorFfmpegNotFound], Inl (SystemExit 1))"
    and "exit_status (snd (main h)) = 1"
  using assms by (simp_all add: main_def exit_status_def)

lemma exhausted_run:
  "main studio_host =
    ([Banner, Analyzing, Details 5 1920 1080 512 288,
      EncodingAttempt 1 3 314, Result (9375 / 32), Overshot (1183 / 32),
      EncodingAttempt 2 3 251, Result (9375 / 32), Overshot (1183 / 32),
      EncodingAttempt 3 3 200, Result (9375 / 32), Warning 256 3, Done], Inr ())"
  by (simp add: main_def compress_video_def studio_host_def find_tool_def
      get_video_info_def probe_try_def video_1080p_def audio_track_def upt_rec scripted_encoder_def
      calculate_target_details_def py_truediv_def py_int_def TARGET_DIMENSION_def MAX_SIZE_KB_def
      SAFE_BITRATE_FACTOR_def reduce_bitrate_def max_attempts_def Let_def)

lemma exhausted_run_status: "exit_status (snd (main studio_host)) = 0"
  by (simp add: exhausted_run exit_status_def)

end
